theory Spec2Isabelle
  imports Main
begin

section \<open>JavaScript values\<close>

text \<open>
  The values that travel through the client: response bodies parsed from JSON and the
  fields of the options object. Numbers are the integral ones plus NaN; a function value
  (the tests pass \<^verbatim>\<open>eval\<close> and \<^verbatim>\<open>Symbol\<close> as options) is kept by name only.
\<close>

datatype jsval =
    JUndefined
  | JNull
  | JBool bool
  | JNum int
  | JNaN
  | JStr string
  | JArr "jsval list"
  | JObj "(string \<times> jsval) list"
  | JFun string

text \<open>\<^verbatim>\<open>!v\<close> is true exactly on the falsy values.\<close>

fun truthy :: "jsval \<Rightarrow> bool" where
  "truthy JUndefined = False"
| "truthy JNull = False"
| "truthy (JBool b) = b"
| "truthy (JNum n) = (n \<noteq> 0)"
| "truthy JNaN = False"
| "truthy (JStr s) = (s \<noteq> [])"
| "truthy (JArr xs) = True"
| "truthy (JObj fs) = True"
| "truthy (JFun f) = True"

text \<open>Reading a property of an object literal: \<^verbatim>\<open>undefined\<close> when the key is not there.\<close>

definition own_property :: "(string \<times> jsval) list \<Rightarrow> string \<Rightarrow> jsval" where
  "own_property fs k = (case map_of fs k of None \<Rightarrow> JUndefined | Some v \<Rightarrow> v)"

text \<open>
  The member read \<^verbatim>\<open>v.k\<close>. On \<^verbatim>\<open>undefined\<close> and \<^verbatim>\<open>null\<close> it raises a TypeError
  (\<open>None\<close>); on an object it is the property; on any other value it is
  \<^verbatim>\<open>undefined\<close>, since the names this program reads (\<^verbatim>\<open>message\<close>) are not built-in
  properties of strings, numbers, booleans, arrays or functions.
\<close>

fun member :: "jsval \<Rightarrow> string \<Rightarrow> jsval option" where
  "member JUndefined k = None"
| "member JNull k = None"
| "member (JObj fs) k = Some (own_property fs k)"
| "member v k = Some JUndefined"

section \<open>Transport results and the typed errors\<close>

text \<open>
  \<^verbatim>\<open>AxiosResponse<T>\<close>: the status code and the parsed body. The body of a failed exchange
  is any value; \<^verbatim>\<open>AxiosError\<close> holds the response when the server sent one.
\<close>

record 'd axios_response =
  status :: int
  data :: 'd

record axios_error =
  message :: string
  code :: "string option"
  response :: "jsval axios_response option"

text \<open>
  The four error classes imported from \<^verbatim>\<open>./errors\<close>, each with the arguments its
  constructor is called with: the message for the first three, the body and the status for
  \<open>GeneralError\<close>.
\<close>

datatype typed_error =
    AuthenticationError jsval
  | NotFoundError jsval
  | ConflictError jsval
  | GeneralError jsval int

text \<open>
  What a rejected promise or a synchronous throw can carry: one of the typed errors, the
  transport's own error object, the TypeError of a member read on \<^verbatim>\<open>null\<close> or
  \<^verbatim>\<open>undefined\<close>, or the error of a failed typeforce check (with the offending property).
\<close>

datatype thrown =
    Typed typed_error
  | Raw axios_error
  | TypeError
  | TfTypeError string

fun is_typed :: "thrown \<Rightarrow> bool" where
  "is_typed (Typed t) = True"
| "is_typed x = False"

section \<open>The response interceptor of \<^verbatim>\<open>WaasApi\<close>\<close>

text \<open>The success handler: logs and returns the response it was given.\<close>

definition on_fulfilled :: "'d axios_response \<Rightarrow> 'd axios_response" where
  "on_fulfilled r = r"

text \<open>
  The error handler, an \<^verbatim>\<open>async\<close> function with no \<^verbatim>\<open>return\<close>: every path throws, so
  its value here is what it throws. The \<^verbatim>\<open>switch\<close> keeps the source's order 401, 409, 404.
\<close>

definition throw_with_message :: "(jsval \<Rightarrow> typed_error) \<Rightarrow> jsval \<Rightarrow> thrown" where
  "throw_with_message mk body =
     (case member body ''message'' of None \<Rightarrow> TypeError | Some m \<Rightarrow> Typed (mk m))"

definition on_rejected :: "axios_error \<Rightarrow> thrown" where
  "on_rejected e =
     (case response e of
        Some r \<Rightarrow>
          if status r = 401 then throw_with_message AuthenticationError (data r)
          else if status r = 409 then throw_with_message ConflictError (data r)
          else if status r = 404 then throw_with_message NotFoundError (data r)
          else Typed (GeneralError (data r) (status r))
      | None \<Rightarrow> Raw e)"

text \<open>
  What the transport hands to the interceptor, and what the caller's promise settles to.
\<close>

datatype 'd exchange = Fulfilled "'d axios_response" | Failed axios_error

datatype 'a settled = Resolved 'a | Rejected thrown

definition intercept :: "'d exchange \<Rightarrow> 'd axios_response settled" where
  "intercept x =
     (case x of
        Fulfilled r \<Rightarrow> Resolved (on_fulfilled r)
      | Failed e \<Rightarrow> Rejected (on_rejected e))"

section \<open>What a typed error carries\<close>

text \<open>
  Modelled from the spec: the error classes themselves (\<^verbatim>\<open>./errors\<close>) are not among the
  sources. Each kind carries the server-provided message, the \<^verbatim>\<open>message\<close> field of the
  body or the empty string if absent; the generic kind also carries the numeric status code
  and the body's \<^verbatim>\<open>activityId\<close> if present.
\<close>

definition or_empty :: "jsval \<Rightarrow> jsval" where
  "or_empty m = (if m = JUndefined then JStr [] else m)"

definition field_of :: "jsval \<Rightarrow> string \<Rightarrow> jsval" where
  "field_of body k = (case member body k of None \<Rightarrow> JUndefined | Some v \<Rightarrow> v)"

fun error_message :: "typed_error \<Rightarrow> jsval" where
  "error_message (AuthenticationError m) = or_empty m"
| "error_message (NotFoundError m) = or_empty m"
| "error_message (ConflictError m) = or_empty m"
| "error_message (GeneralError body st) = or_empty (field_of body ''message'')"

fun error_status :: "typed_error \<Rightarrow> int option" where
  "error_status (GeneralError body st) = Some st"
| "error_status t = None"

fun error_activityId :: "typed_error \<Rightarrow> jsval option" where
  "error_activityId (GeneralError body st) =
     (if field_of body ''activityId'' = JUndefined then None
      else Some (field_of body ''activityId''))"
| "error_activityId t = None"

section \<open>The constructor of \<^verbatim>\<open>WaasApi\<close>\<close>

text \<open>
  The checks of the typeforce package that the constructor uses: \<^verbatim>\<open>"String"\<close> and
  \<^verbatim>\<open>"Number"\<close> test \<^verbatim>\<open>typeof\<close>, a leading \<^verbatim>\<open>?\<close> also lets \<^verbatim>\<open>undefined\<close> and
  \<^verbatim>\<open>null\<close> pass. An object type checks its own properties in their order and, in strict
  mode, then refuses the first property of the value for which \<^verbatim>\<open>type[propertyName]\<close> is
  falsy. The type is a plain object, so besides the names it declares, the names it inherits
  from \<^verbatim>\<open>Object.prototype\<close> are let through as well.
\<close>

datatype tf_type = TfString | TfNumber | TfMaybe tf_type

fun tf_accepts :: "tf_type \<Rightarrow> jsval \<Rightarrow> bool" where
  "tf_accepts TfString v = (case v of JStr s \<Rightarrow> True | _ \<Rightarrow> False)"
| "tf_accepts TfNumber v = (case v of JNum n \<Rightarrow> True | JNaN \<Rightarrow> True | _ \<Rightarrow> False)"
| "tf_accepts (TfMaybe t) v = (v = JUndefined \<or> v = JNull \<or> tf_accepts t v)"

fun tf_properties :: "(string \<times> tf_type) list \<Rightarrow> (string \<times> jsval) list \<Rightarrow> string option" where
  "tf_properties [] fs = None"
| "tf_properties ((k, t) # ts) fs =
     (if tf_accepts t (own_property fs k) then tf_properties ts fs else Some k)"

definition object_prototype_names :: "string list" where
  "object_prototype_names =
     [''constructor'', ''hasOwnProperty'', ''isPrototypeOf'', ''propertyIsEnumerable'',
      ''toLocaleString'', ''toString'', ''valueOf'', ''__proto__'', ''__defineGetter__'',
      ''__defineSetter__'', ''__lookupGetter__'', ''__lookupSetter__'']"

definition tf_unexpected :: "(string \<times> tf_type) list \<Rightarrow> (string \<times> jsval) list \<Rightarrow> string option" where
  "tf_unexpected ts fs =
     find (\<lambda>k. map_of ts k = None \<and> k \<notin> set object_prototype_names) (map fst fs)"

definition typeforce :: "(string \<times> tf_type) list \<Rightarrow> (string \<times> jsval) list \<Rightarrow> bool \<Rightarrow> thrown option" where
  "typeforce ts fs strict =
     (case tf_properties ts fs of
        Some k \<Rightarrow> Some (TfTypeError k)
      | None \<Rightarrow>
          if strict then map_option TfTypeError (tf_unexpected ts fs) else None)"

definition options_type :: "(string \<times> tf_type) list" where
  "options_type =
     [(''clientId'', TfString),
      (''clientSecret'', TfString),
      (''subscription'', TfString),
      (''vaultUrl'', TfMaybe TfString),
      (''ethereumNetwork'', TfMaybe TfString),
      (''ethereumTxSpeed'', TfMaybe TfString),
      (''bitcoinNetwork'', TfMaybe TfString),
      (''bitcoinTxSpeed'', TfMaybe TfString),
      (''bitcoinTxConfirmations'', TfMaybe TfString),
      (''bitcoinMaxFeeRate'', TfMaybe TfNumber)]"

text \<open>The message \<^verbatim>\<open>Missing variable 'v'\<close>, with its two apostrophes.\<close>

definition missing_variable :: "string \<Rightarrow> thrown" where
  "missing_variable v =
     Typed (AuthenticationError (JStr (''Missing variable '' @ [CHR 0x27] @ v @ [CHR 0x27])))"

record request_config =
  baseURL :: string
  timeout :: nat
  headers :: "(string \<times> jsval) list"
  responseType :: string

definition optional_header :: "(string \<times> jsval) list \<Rightarrow> string \<Rightarrow> string \<Rightarrow> (string \<times> jsval) list" where
  "optional_header options k h =
     (if truthy (own_property options k) then [(h, own_property options k)] else [])"

text \<open>
  The constructor up to \<^verbatim>\<open>axios.create(api)\<close>: \<open>Inl\<close> is what it throws, \<open>Inr\<close> the
  configuration it creates the instance from. No request is sent on either path.
\<close>

definition WaasApi :: "(string \<times> jsval) list \<Rightarrow> thrown + request_config" where
  "WaasApi options =
     (if \<not> truthy (own_property options ''clientId'') then Inl (missing_variable ''clientId'')
      else if \<not> truthy (own_property options ''clientSecret'') then
        Inl (missing_variable ''clientSecret'')
      else if \<not> truthy (own_property options ''subscription'') then
        Inl (missing_variable ''subscription'')
      else
        case typeforce options_type options True of
          Some err \<Rightarrow> Inl err
        | None \<Rightarrow>
            Inr \<lparr>baseURL = ''http://localhost:7071'',
                 timeout = 20000,
                 headers =
                   [(''tangany-client-id'', own_property options ''clientId''),
                    (''tangany-client-secret'', own_property options ''clientSecret''),
                    (''tangany-subscription'', own_property options ''subscription''),
                    (''common'', JObj [(''Accept'', JStr ''application/json'')])]
                   @ optional_header options ''vaultUrl'' ''tangany-vault-url''
                   @ optional_header options ''ethereumNetwork'' ''tangany-ethereum-network''
                   @ optional_header options ''ethereumTxSpeed'' ''tangany-ethereum-tx-speed''
                   @ optional_header options ''bitcoinNetwork'' ''tangany-bitcoin-network''
                   @ optional_header options ''bitcoinTxSpeed'' ''tangany-bitcoin-tx-speed''
                   @ optional_header options ''bitcoinTxConfirmations''
                       ''tangany-bitcoin-tx-confirmations''
                   @ optional_header options ''bitcoinMaxFeeRate'' ''tangany-bitcoin-max-fee-rate'',
                 responseType = ''json''\<rparr>)"

section \<open>Asynchronous requests\<close>

text \<open>
  \<^verbatim>\<open>IAsyncRequestStatus\<close>: the state of an asynchronous request as the server reports it.
  \<open>stage\<close> is \<^verbatim>\<open>status.stage\<close>, \<open>status_more\<close> the other string fields of \<^verbatim>\<open>status\<close>;
  the two dates are kept as milliseconds; \<open>output_of\<close>, the field \<^verbatim>\<open>output\<close>, is \<^verbatim>\<open>null\<close> or an object.
\<close>

record async_request_status =
  process :: string
  stage :: string
  status_more :: "(string \<times> string) list"
  created :: nat
  updated :: nat
  output_of :: "(string \<times> jsval) list option"

text \<open>
  Modelled from the spec: the class \<^verbatim>\<open>Request\<close> (\<^verbatim>\<open>./request\<close>), which the wallets
  construct from the id of a submission, is not among the sources. The handle holds only the
  operation reference. \<open>get\<close> performs one fetch of the status resource named by the
  reference, through the interceptor, and returns the body as it is; its second component
  lists the network calls it made.
\<close>

record request =
  request_id :: string

datatype call = GET string | Delay nat

definition get :: "request \<Rightarrow> (string \<Rightarrow> async_request_status exchange)
    \<Rightarrow> async_request_status settled \<times> call list" where
  "get rq transport =
     ((case intercept (transport (request_id rq)) of
         Resolved r \<Rightarrow> Resolved (data r)
       | Rejected e \<Rightarrow> Rejected e),
      [GET (request_id rq)])"

text \<open>
  Modelled from the spec: \<open>wait\<close> of the same missing class. It calls \<open>get\<close>; a failed
  poll ends the wait with that failure; a status in a terminal stage ends it with the
  status's output; otherwise the deadline is checked, and the next poll follows a delay of
  \<open>intervalMs\<close>. The server is given by its answer to each successive poll, and the wall
  clock by its reading (milliseconds since the call) at the check after each poll. Which
  stages are terminal is a parameter. A wait that polls forever is \<open>None\<close>.
\<close>

record wait_options =
  intervalMs :: nat
  timeoutMs :: "nat option"

datatype wait_result =
    Output "(string \<times> jsval) list option"
  | PollFailed thrown
  | OperationTimedOut

definition expired :: "wait_options \<Rightarrow> nat \<Rightarrow> bool" where
  "expired opts now = (case timeoutMs opts of None \<Rightarrow> False | Some t \<Rightarrow> t < now)"

partial_function (option) wait_from ::
  "(string \<Rightarrow> bool) \<Rightarrow> wait_options \<Rightarrow> request
    \<Rightarrow> (nat \<Rightarrow> string \<Rightarrow> async_request_status exchange) \<Rightarrow> (nat \<Rightarrow> nat)
    \<Rightarrow> nat \<Rightarrow> call list \<Rightarrow> (wait_result \<times> call list) option" where
  "wait_from terminal opts rq server clock k calls =
     (case get rq (server k) of
        (Rejected e, cs) \<Rightarrow> Some (PollFailed e, calls @ cs)
      | (Resolved st, cs) \<Rightarrow>
          if terminal (stage st) then Some (Output (output_of st), calls @ cs)
          else if expired opts (clock k) then Some (OperationTimedOut, calls @ cs)
          else wait_from terminal opts rq server clock (Suc k)
                 (calls @ cs @ [Delay (intervalMs opts)]))"

declare wait_from.simps [code]

definition wait ::
  "(string \<Rightarrow> bool) \<Rightarrow> wait_options \<Rightarrow> request
    \<Rightarrow> (nat \<Rightarrow> string \<Rightarrow> async_request_status exchange) \<Rightarrow> (nat \<Rightarrow> nat)
    \<Rightarrow> (wait_result \<times> call list) option" where
  "wait terminal opts rq server clock = wait_from terminal opts rq server clock 0 []"

text \<open>The calls of a wait that ends at its poll number \<open>n\<close> (counted from 0).\<close>

fun polling :: "string \<Rightarrow> nat \<Rightarrow> nat \<Rightarrow> call list" where
  "polling ref d 0 = [GET ref]"
| "polling ref d (Suc n) = GET ref # Delay d # polling ref d n"

text \<open>
  Poll number \<open>i\<close> leaves the wait pending: it succeeds with a status in a non-terminal
  stage, and the deadline has not passed at the check that follows it.
\<close>

definition pending_poll :: "(string \<Rightarrow> bool) \<Rightarrow> wait_options \<Rightarrow> request
    \<Rightarrow> (nat \<Rightarrow> string \<Rightarrow> async_request_status exchange) \<Rightarrow> (nat \<Rightarrow> nat) \<Rightarrow> nat \<Rightarrow> bool" where
  "pending_poll terminal opts rq server clock i =
     (case server i (request_id rq) of
        Fulfilled r \<Rightarrow> \<not> terminal (stage (data r)) \<and> \<not> expired opts (clock i)
      | Failed e \<Rightarrow> False)"








section \<open>Concrete exchanges\<close>

text \<open>
  A failure without a response (the connection was refused) and a failure with one, as the
  transport reports them.
\<close>

definition refused :: axios_error where
  "refused =
     \<lparr>message = ''connect ECONNREFUSED 127.0.0.1:7071'', code = Some ''ECONNREFUSED'',
      response = None\<rparr>"

definition http_failure :: "int \<Rightarrow> jsval \<Rightarrow> axios_error" where
  "http_failure st body =
     \<lparr>message = ''Request failed'', code = None,
      response = Some \<lparr>status = st, data = body\<rparr>\<rparr>"

definition boom :: jsval where
  "boom = JObj [(''message'', JStr ''boom''), (''activityId'', JStr ''abc-1'')]"

text \<open>
  The credentials of the test suite, the same with an empty \<^verbatim>\<open>clientId\<close>, and the three
  names the constructor requires.
\<close>

definition auth :: "(string \<times> jsval) list" where
  "auth =
     [(''clientId'', JStr ''1''), (''clientSecret'', JStr ''2''), (''subscription'', JStr ''3'')]"

definition empty_clientId :: "(string \<times> jsval) list" where
  "empty_clientId =
     [(''clientId'', JStr []), (''clientSecret'', JStr ''2''), (''subscription'', JStr ''3'')]"

definition credentials :: "string list" where
  "credentials = [''clientId'', ''clientSecret'', ''subscription'']"

text \<open>
  The request \<^verbatim>\<open>job-42\<close> and three servers: one that answers the first poll with a pending
  status and every later one with the confirmed status, one whose polls fail with HTTP 409,
  and one whose operation is confirmed from the start.
\<close>

definition job42 :: request where
  "job42 = \<lparr>request_id = ''job-42''\<rparr>"

definition pending_status :: async_request_status where
  "pending_status =
     \<lparr>process = ''job-42'', stage = ''pending'', status_more = [], created = 0, updated = 0,
      output_of = None\<rparr>"

definition confirmed_status :: async_request_status where
  "confirmed_status =
     \<lparr>process = ''job-42'', stage = ''confirmed'', status_more = [], created = 0,
      updated = 1000, output_of = Some [(''hash'', JStr ''0xabc'')]\<rparr>"

definition two_polls :: "nat \<Rightarrow> string \<Rightarrow> async_request_status exchange" where
  "two_polls k ref =
     (if k = 0 then Fulfilled \<lparr>status = 200, data = pending_status\<rparr>
      else Fulfilled \<lparr>status = 200, data = confirmed_status\<rparr>)"

definition conflict_poll :: "nat \<Rightarrow> string \<Rightarrow> async_request_status exchange" where
  "conflict_poll k ref = Failed (http_failure 409 (JObj [(''message'', JStr ''ramirez'')]))"


definition is_confirmed :: "string \<Rightarrow> bool" where
  "is_confirmed s = (s = ''confirmed'')"

definition every_second :: wait_options where
  "every_second = \<lparr>intervalMs = 1000, timeoutMs = Some 20000\<rparr>"

definition seconds :: "nat \<Rightarrow> nat" where
  "seconds k = 1000 * k"








section \<open>The interceptor on the success path\<close>

text \<open>
  C10. For every successful transport response the response interceptor returns the
  response object unchanged: the classification layer is the identity on the success path.
\<close>

theorem interceptor_success_identity:
  "on_fulfilled r = r \<and> intercept (Fulfilled r) = Resolved r"
  by (simp add: on_fulfilled_def intercept_def)

section \<open>Classification of failures\<close>

lemma member_defined:
  "body \<noteq> JUndefined \<Longrightarrow> body \<noteq> JNull \<Longrightarrow> member body k = Some (field_of body k)"
  by (cases body) (simp_all add: field_of_def)

lemma throw_with_message_defined:
  "body \<noteq> JUndefined \<Longrightarrow> body \<noteq> JNull \<Longrightarrow>
   throw_with_message mk body = Typed (mk (field_of body ''message''))"
  by (simp add: throw_with_message_def member_defined)

text \<open>
  With a body that is neither \<^verbatim>\<open>null\<close> nor \<^verbatim>\<open>undefined\<close>, the statuses 401, 404 and 409
  give their typed error, built from the body's \<^verbatim>\<open>message\<close> field.
\<close>

lemma classifier_message_kinds:
  assumes "response e = Some r" "data r \<noteq> JUndefined" "data r \<noteq> JNull"
  shows "status r = 401 \<Longrightarrow>
           on_rejected e = Typed (AuthenticationError (field_of (data r) ''message''))"
    and "status r = 404 \<Longrightarrow>
           on_rejected e = Typed (NotFoundError (field_of (data r) ''message''))"
    and "status r = 409 \<Longrightarrow>
           on_rejected e = Typed (ConflictError (field_of (data r) ''message''))"
  using assms by (simp_all add: on_rejected_def throw_with_message_defined)

lemma absent_message_is_empty:
  "error_message (ConflictError (field_of (JObj []) ''message'')) = JStr []"
  by (simp add: field_of_def own_property_def or_empty_def)

text \<open>
  C1. For every failed exchange with status 401, 404 or 409 the classifier should produce
  the AuthenticationError, NotFoundError or ConflictError with the body's message, or the
  empty string when the field is absent. With the body \<^verbatim>\<open>null\<close> the handler reads
  \<^verbatim>\<open>e.response.data.message\<close> and throws a TypeError instead, for each of the three statuses.
\<close>

theorem classifier_null_body:
  "on_rejected (http_failure 401 JNull) = TypeError
   \<and> on_rejected (http_failure 404 JNull) = TypeError
   \<and> on_rejected (http_failure 409 JNull) = TypeError"
  by (simp add: on_rejected_def http_failure_def throw_with_message_def)

text \<open>
  A failure that carries no response does not become a GeneralError: the handler rethrows
  the transport's own error.
\<close>

theorem no_response_escapes_raw:
  "on_rejected refused = Raw refused \<and> is_typed (on_rejected refused) = False"
  by (simp add: on_rejected_def refused_def)

text \<open>
  C2, as amended. A transport failure that carries no response is rethrown unchanged, as
  the transport's own error. A failure that carries a response is presented as one of the
  four typed kinds whenever its body is neither \<^verbatim>\<open>null\<close> nor \<^verbatim>\<open>undefined\<close>, or its status
  is none of 401, 404 and 409.
\<close>

theorem interceptor_failure_shapes:
  "(response e = None \<longrightarrow> on_rejected e = Raw e)
   \<and> (response e' = Some r
        \<and> ((data r \<noteq> JUndefined \<and> data r \<noteq> JNull)
            \<or> (status r \<noteq> 401 \<and> status r \<noteq> 404 \<and> status r \<noteq> 409))
      \<longrightarrow> is_typed (on_rejected e'))"
  by (auto simp: on_rejected_def throw_with_message_defined)

theorem interceptor_failure_shapes_witness:
  "response refused = None \<and> on_rejected refused = Raw refused
   \<and> response (http_failure 401 (JObj [(''message'', JStr ''AuthenticationError'')]))
       = Some \<lparr>status = 401, data = JObj [(''message'', JStr ''AuthenticationError'')]\<rparr>
   \<and> is_typed (on_rejected (http_failure 401 (JObj [(''message'', JStr ''AuthenticationError'')])))"
  using interceptor_failure_shapes
    [of refused "http_failure 401 (JObj [(''message'', JStr ''AuthenticationError'')])"
      "\<lparr>status = 401, data = JObj [(''message'', JStr ''AuthenticationError'')]\<rparr>"]
  by (simp add: refused_def http_failure_def)

text \<open>
  C3. For every failed exchange whose status is not 401, 404 or 409 the classifier produces
  a GeneralError constructed from the full response body and the numeric status code; it
  carries the status, the body's message and the body's \<^verbatim>\<open>activityId\<close> when present.
\<close>

theorem general_error_other_statuses:
  assumes "response e = Some r"
    and "status r \<noteq> 401" "status r \<noteq> 404" "status r \<noteq> 409"
  shows "on_rejected e = Typed (GeneralError (data r) (status r))
         \<and> error_status (GeneralError (data r) (status r)) = Some (status r)
         \<and> error_message (GeneralError (data r) (status r))
             = or_empty (field_of (data r) ''message'')
         \<and> (field_of (data r) ''activityId'' \<noteq> JUndefined \<longrightarrow>
              error_activityId (GeneralError (data r) (status r))
                = Some (field_of (data r) ''activityId''))"
  using assms by (simp add: on_rejected_def)

theorem general_error_boom_witness:
  "on_rejected (http_failure 500 boom) = Typed (GeneralError boom 500)
   \<and> error_status (GeneralError boom 500) = Some 500
   \<and> error_message (GeneralError boom 500) = JStr ''boom''
   \<and> error_activityId (GeneralError boom 500) = Some (JStr ''abc-1'')"
  using general_error_other_statuses [of "http_failure 500 boom" "\<lparr>status = 500, data = boom\<rparr>"]
  by (simp add: http_failure_def boom_def field_of_def own_property_def or_empty_def)

section \<open>Validation in the constructor\<close>

lemma tf_properties_rejects:
  "(k, t) \<in> set ts \<Longrightarrow> \<not> tf_accepts t (own_property fs k) \<Longrightarrow> tf_properties ts fs \<noteq> None"
  by (induction ts) auto

lemma typeforce_rejects:
  "(k, t) \<in> set ts \<Longrightarrow> \<not> tf_accepts t (own_property fs k) \<Longrightarrow>
   \<exists>p. typeforce ts fs strict = Some (TfTypeError p)"
  using tf_properties_rejects [of k t ts fs] by (auto simp: typeforce_def)

text \<open>
  C9. Constructing the client with a missing or empty \<^verbatim>\<open>clientId\<close>, \<^verbatim>\<open>clientSecret\<close> or
  \<^verbatim>\<open>subscription\<close> throws an AuthenticationError whose message names a missing variable,
  and nothing is created; with all three present, an option whose value its declared type
  refuses makes the constructor throw the type check's error.
\<close>

theorem constructor_validation:
  "((\<exists>v \<in> set credentials. \<not> truthy (own_property options v)) \<longrightarrow>
      (\<exists>v \<in> set credentials. \<not> truthy (own_property options v)
          \<and> WaasApi options = Inl (missing_variable v)))
   \<and> ((\<forall>v \<in> set credentials. truthy (own_property options' v))
        \<and> (k, t) \<in> set options_type \<and> \<not> tf_accepts t (own_property options' k)
      \<longrightarrow> (\<exists>p. WaasApi options' = Inl (TfTypeError p)))"
proof (intro conjI impI)
  assume "\<exists>v \<in> set credentials. \<not> truthy (own_property options v)"
  then show "\<exists>v \<in> set credentials. \<not> truthy (own_property options v)
          \<and> WaasApi options = Inl (missing_variable v)"
    by (auto simp: credentials_def WaasApi_def)
next
  assume a: "(\<forall>v \<in> set credentials. truthy (own_property options' v))
        \<and> (k, t) \<in> set options_type \<and> \<not> tf_accepts t (own_property options' k)"
  then obtain p where "typeforce options_type options' True = Some (TfTypeError p)"
    using typeforce_rejects by blast
  with a show "\<exists>p. WaasApi options' = Inl (TfTypeError p)"
    by (simp add: credentials_def WaasApi_def)
qed

theorem constructor_validation_witness:
  "WaasApi empty_clientId = Inl (missing_variable ''clientId'')
   \<and> WaasApi (auth @ [(''vaultUrl'', JBool True)]) = Inl (TfTypeError ''vaultUrl'')"
  using constructor_validation
    [of empty_clientId "auth @ [(''vaultUrl'', JBool True)]" "''vaultUrl''" "TfMaybe TfString"]
  apply (simp add: credentials_def auth_def empty_clientId_def own_property_def options_type_def)
  apply (simp add: WaasApi_def own_property_def typeforce_def options_type_def auth_def)
  done

section \<open>Polling an asynchronous request\<close>

lemma get_fulfilled:
  "transport (request_id rq) = Fulfilled r \<Longrightarrow>
   get rq transport = (Resolved (data r), [GET (request_id rq)])"
  by (simp add: get_def intercept_def on_fulfilled_def)

lemma get_failed:
  "transport (request_id rq) = Failed e \<Longrightarrow>
   get rq transport = (Rejected (on_rejected e), [GET (request_id rq)])"
  by (simp add: get_def intercept_def)





subsection \<open>One step of the wait\<close>

lemma wait_from_pending:
  assumes "pending_poll terminal opts rq server clock k"
  shows "wait_from terminal opts rq server clock k calls =
         wait_from terminal opts rq server clock (Suc k)
           (calls @ [GET (request_id rq), Delay (intervalMs opts)])"
proof -
  from assms obtain r where r: "server k (request_id rq) = Fulfilled r"
    and nt: "\<not> terminal (stage (data r))" and ne: "\<not> expired opts (clock k)"
    by (auto simp: pending_poll_def split: exchange.splits)
  have "get rq (server k) = (Resolved (data r), [GET (request_id rq)])"
    using r by (simp add: get_fulfilled)
  then show ?thesis
    by (subst wait_from.simps) (simp add: nt ne)
qed

lemma wait_from_terminal:
  assumes "server k (request_id rq) = Fulfilled r" "terminal (stage (data r))"
  shows "wait_from terminal opts rq server clock k calls =
         Some (Output (output_of (data r)), calls @ [GET (request_id rq)])"
proof -
  have "get rq (server k) = (Resolved (data r), [GET (request_id rq)])"
    using assms(1) by (simp add: get_fulfilled)
  then show ?thesis
    by (subst wait_from.simps) (simp add: assms(2))
qed

lemma wait_from_failed:
  assumes "server k (request_id rq) = Failed e"
  shows "wait_from terminal opts rq server clock k calls =
         Some (PollFailed (on_rejected e), calls @ [GET (request_id rq)])"
proof -
  have "get rq (server k) = (Rejected (on_rejected e), [GET (request_id rq)])"
    using assms(1) by (simp add: get_failed)
  then show ?thesis
    by (subst wait_from.simps) simp
qed


subsection \<open>The pending polls before the last one\<close>

lemma wait_from_after_pending:
  assumes "\<forall>i<n. pending_poll terminal opts rq server clock (k + i)"
  shows "wait_from terminal opts rq server clock k calls =
         wait_from terminal opts rq server clock (k + n)
           (calls @ concat (replicate n [GET (request_id rq), Delay (intervalMs opts)]))"
  using assms
proof (induction n arbitrary: k calls)
  case 0
  then show ?case by simp
next
  case (Suc n)
  have p: "pending_poll terminal opts rq server clock k"
    using Suc.prems by (metis add.right_neutral zero_less_Suc)
  have rest: "\<forall>i<n. pending_poll terminal opts rq server clock (Suc k + i)"
    using Suc.prems by (metis Suc_less_eq add_Suc_shift)
  show ?case
    by (simp add: wait_from_pending [OF p] Suc.IH [OF rest])
qed

lemma wait_after_pending:
  assumes "\<forall>i<n. pending_poll terminal opts rq server clock i"
  shows "wait terminal opts rq server clock =
         wait_from terminal opts rq server clock n
           (concat (replicate n [GET (request_id rq), Delay (intervalMs opts)]))"
  unfolding wait_def
  using wait_from_after_pending [of n terminal opts rq server clock 0 "[]"] assms
  by simp

lemma polling_concat:
  "polling ref d n = concat (replicate n [GET ref, Delay d]) @ [GET ref]"
  by (induction n) simp_all

lemma count_polling_GET: "count_list (polling ref d n) (GET ref) = Suc n"
  by (induction n) simp_all

lemma count_polling_Delay: "count_list (polling ref d n) (Delay d) = n"
  by (induction n) simp_all

subsection \<open>How a wait ends\<close>

text \<open>
  C5. \<open>wait\<close> invokes \<open>get\<close> again after each delay of the configured interval until a
  fetched status has a terminal stage, then returns that status's output: when the polls
  before number \<open>n\<close> are pending and poll \<open>n\<close> is terminal, it makes \<open>n + 1\<close> fetches and
  \<open>n\<close> delays. A first poll that is terminal is answered with no delay at all.
\<close>

theorem wait_polls_until_terminal:
  assumes "\<forall>i<n. pending_poll terminal opts rq server clock i"
    and "server n (request_id rq) = Fulfilled r"
    and "terminal (stage (data r))"
  shows "wait terminal opts rq server clock =
           Some (Output (output_of (data r)), polling (request_id rq) (intervalMs opts) n)
         \<and> count_list (polling (request_id rq) (intervalMs opts) n) (GET (request_id rq)) = Suc n
         \<and> count_list (polling (request_id rq) (intervalMs opts) n) (Delay (intervalMs opts)) = n"
proof -
  have "wait_from terminal opts rq server clock n
          (concat (replicate n [GET (request_id rq), Delay (intervalMs opts)]))
        = Some (Output (output_of (data r)), polling (request_id rq) (intervalMs opts) n)"
    using assms(2,3) by (simp add: wait_from_terminal polling_concat)
  then show ?thesis
    by (simp add: wait_after_pending [OF assms(1)] count_polling_GET count_polling_Delay)
qed

theorem wait_two_polls_witness:
  "wait is_confirmed every_second job42 two_polls seconds
     = Some (Output (Some [(''hash'', JStr ''0xabc'')]),
             [GET ''job-42'', Delay 1000, GET ''job-42''])"
  using wait_polls_until_terminal
    [of "Suc 0" is_confirmed every_second job42 two_polls seconds
      "\<lparr>status = 200, data = confirmed_status\<rparr>"]
  by (simp add: pending_poll_def expired_def job42_def two_polls_def is_confirmed_def
      every_second_def seconds_def pending_status_def confirmed_status_def)

text \<open>
  C6. A poll that fails ends the wait at once with the failure the interceptor produced
  for it, and no further poll is made: only a pending poll is followed by another one.
\<close>

theorem wait_propagates_poll_failure:
  assumes "\<forall>i<n. pending_poll terminal opts rq server clock i"
    and "server n (request_id rq) = Failed e"
  shows "wait terminal opts rq server clock =
           Some (PollFailed (on_rejected e), polling (request_id rq) (intervalMs opts) n)
         \<and> count_list (polling (request_id rq) (intervalMs opts) n) (GET (request_id rq)) = Suc n"
proof -
  have "wait_from terminal opts rq server clock n
          (concat (replicate n [GET (request_id rq), Delay (intervalMs opts)]))
        = Some (PollFailed (on_rejected e), polling (request_id rq) (intervalMs opts) n)"
    using assms(2) by (simp add: wait_from_failed polling_concat)
  then show ?thesis
    by (simp add: wait_after_pending [OF assms(1)] count_polling_GET)
qed

theorem wait_conflict_witness:
  "wait is_confirmed every_second job42 conflict_poll seconds
     = Some (PollFailed (Typed (ConflictError (JStr ''ramirez''))), [GET ''job-42''])
   \<and> error_message (ConflictError (JStr ''ramirez'')) = JStr ''ramirez''"
  using wait_propagates_poll_failure
    [of 0 is_confirmed every_second job42 conflict_poll seconds
      "http_failure 409 (JObj [(''message'', JStr ''ramirez'')])"]
  by (simp add: conflict_poll_def job42_def http_failure_def on_rejected_def
      throw_with_message_def own_property_def or_empty_def)


subsection \<open>The deadline\<close>







end
